theory Spec2Isabelle
  imports Complex_Main "HOL-Library.Sublist"
begin

section \<open>Text, lines and the console\<close>

text \<open>
  A Python \<open>str\<close> is modelled as a \<^typ>\<open>string\<close>, one \<^typ>\<open>char\<close> for each character of
  the \<open>str\<close>. The two pictographs that open the scripts' messages are outside ASCII and
  are spelled as their UTF-8 bytes; nothing below depends on their length.
\<close>

definition NL :: char where
  "NL = CHR 0x0A"

definition CR :: char where
  "CR = CHR 0x0D"

definition SQ :: char where
  "SQ = CHR 0x27"

definition DQ :: char where
  "DQ = CHR 0x22"

definition check_mark :: string where
  "check_mark = [CHR 0xE2, CHR 0x9C, CHR 0x85]"

definition cross_mark :: string where
  "cross_mark = [CHR 0xE2, CHR 0x9D, CHR 0x8C]"

text \<open>\<open>print(s)\<close> writes \<open>s\<close> and a newline to standard output; it returns the text written.\<close>

definition py_print :: "string \<Rightarrow> string" where
  "py_print s = s @ [NL]"

text \<open>\<open>line.startswith(p)\<close>.\<close>

definition startswith :: "string \<Rightarrow> string \<Rightarrow> bool" where
  "startswith line p = prefix p line"

text \<open>
  \<open>open(name, 'r')\<close> reads in text mode with universal newlines: each of \<open>\r\n\<close> and
  \<open>\r\<close> reaches the program as \<open>\n\<close>.
\<close>

fun universal_newlines :: "string \<Rightarrow> string" where
  "universal_newlines [] = []"
| "universal_newlines [c] = [if c = CR then NL else c]"
| "universal_newlines (c # d # ds) =
     (if c = CR \<and> d = NL then NL # universal_newlines ds
      else if c = CR then NL # universal_newlines (d # ds)
      else c # universal_newlines (d # ds))"

text \<open>
  Cutting a text into lines, each line keeping its \<open>\n\<close>; only the last line may lack one.
\<close>

fun split_lines :: "string \<Rightarrow> string list" where
  "split_lines [] = []"
| "split_lines (c # cs) =
     (if c = NL then [NL] # split_lines cs
      else (case split_lines cs of
              [] \<Rightarrow> [[c]]
            | l # ls \<Rightarrow> (c # l) # ls))"

text \<open>\<open>f.readlines()\<close> on a file opened with \<open>open(name, 'r')\<close>.\<close>

definition readlines :: "string \<Rightarrow> string list" where
  "readlines content = split_lines (universal_newlines content)"

text \<open>
  \<open>f.writelines(lines)\<close> on a file opened with \<open>open(name, 'w')\<close>: the lines are written one
  after the other, nothing is added between them. (On a POSIX system \<open>\n\<close> is written as it
  is.)
\<close>

definition writelines :: "string list \<Rightarrow> string" where
  "writelines ls = concat ls"

text \<open>The outcome of a process: what it wrote to standard output and its exit status.\<close>

record outcome =
  stdout :: string
  exit_code :: nat


section \<open>The credential writer (add_youtube_credentials.py)\<close>

text \<open>
  The script works on the file \<open>api_keys.txt\<close> of the current directory. Of the file
  system the model keeps the content of that file (\<open>None\<close> when \<open>os.path.exists\<close> says it is
  not there) and whether opening it for reading or for writing raises an exception; the
  text carried by a fault is what \<open>str(e)\<close> gives for the exception. A fault on opening
  for writing leaves the file as it was.
\<close>

record filesystem =
  api_keys :: "string option"
  read_fault :: "string option"
  write_fault :: "string option"

record writer_outcome = outcome +
  files :: filesystem

text \<open>Lines 27 to 29: the lines of the file, none when the file does not exist.\<close>

definition read_existing :: "filesystem \<Rightarrow> string + string list" where
  "read_existing fs =
     (case api_keys fs of
        None \<Rightarrow> Inr []
      | Some content \<Rightarrow>
          (case read_fault fs of
             Some e \<Rightarrow> Inl e
           | None \<Rightarrow> Inr (readlines content)))"

text \<open>Lines 42 and 43.\<close>

definition write_back :: "filesystem \<Rightarrow> string list \<Rightarrow> string + filesystem" where
  "write_back fs ls =
     (case write_fault fs of
        Some e \<Rightarrow> Inl e
      | None \<Rightarrow> Inr (fs\<lparr>api_keys := Some (writelines ls)\<rparr>))"

text \<open>Lines 22 and 23: the two keys of a project.\<close>

definition client_id_key :: "string \<Rightarrow> string" where
  "client_id_key project_name = project_name @ ''_YouTube_Client_ID''"

definition client_secret_key :: "string \<Rightarrow> string" where
  "client_secret_key project_name = project_name @ ''_YouTube_Client_Secret''"

text \<open>The condition of the comprehension of lines 32 to 35: the line is dropped.\<close>

definition is_existing :: "string \<Rightarrow> string \<Rightarrow> bool" where
  "is_existing project_name line =
     (startswith line (client_id_key project_name @ ''='') \<or>
      startswith line (client_secret_key project_name @ ''=''))"

text \<open>Lines 32 to 39: the stale lines go, the two new lines are appended.\<close>

definition update_lines :: "string \<Rightarrow> string \<Rightarrow> string \<Rightarrow> string list \<Rightarrow> string list" where
  "update_lines project_name client_id client_secret ls =
     filter (\<lambda>line. \<not> is_existing project_name line) ls
       @ [client_id_key project_name @ ''='' @ client_id @ [NL]]
       @ [client_secret_key project_name @ ''='' @ client_secret @ [NL]]"

text \<open>Lines 45 to 48: the four lines of the confirmation.\<close>

definition confirmation :: "string \<Rightarrow> string \<Rightarrow> string \<Rightarrow> string" where
  "confirmation project_name client_id client_secret =
     py_print (check_mark @ '' YouTube credentials added for project: '' @ project_name)
     @ py_print (''   Client ID: '' @ client_id)
     @ py_print (''   Client Secret: '' @ take 10 client_secret @ ''...'')
     @ py_print (''   Keys added to api_keys.txt: '' @ client_id_key project_name @ '', ''
                   @ client_secret_key project_name)"

text \<open>
  \<open>add_youtube_credentials\<close>: \<open>Inl e\<close> when an exception with text \<open>e\<close> leaves the function,
  otherwise the file system after the call and the text printed.
\<close>

definition add_youtube_credentials ::
    "filesystem \<Rightarrow> string \<Rightarrow> string \<Rightarrow> string \<Rightarrow> string + filesystem \<times> string" where
  "add_youtube_credentials fs project_name client_id client_secret =
     (case read_existing fs of
        Inl e \<Rightarrow> Inl e
      | Inr ls \<Rightarrow>
          (case write_back fs (update_lines project_name client_id client_secret ls) of
             Inl e \<Rightarrow> Inl e
           | Inr fs' \<Rightarrow> Inr (fs', confirmation project_name client_id client_secret)))"

text \<open>The docstring of the module, which \<open>main\<close> prints as the usage text.\<close>

definition usage_doc :: string where
  "usage_doc =
     [NL] @ ''YouTube Credentials Helper Script'' @ [NL]
     @ [NL]
     @ ''This script helps you add YouTube OAuth credentials to your api_keys.txt file'' @ [NL]
     @ ''for specific projects in your Task Manager app.'' @ [NL]
     @ [NL]
     @ ''Usage:'' @ [NL]
     @ ''    python add_youtube_credentials.py <project_name> <client_id> <client_secret>'' @ [NL]
     @ [NL]
     @ ''Example:'' @ [NL]
     @ ''    python add_youtube_credentials.py '' @ [DQ] @ ''My Gaming Channel'' @ [DQ]
     @ '' '' @ [DQ] @ ''123456789-abc123.apps.googleusercontent.com'' @ [DQ]
     @ '' '' @ [DQ] @ ''GOCSPX-secret123'' @ [DQ] @ [NL]"

text \<open>
  \<open>main\<close>, on the file system and \<open>sys.argv\<close> (the program name first). Returning from
  \<open>main\<close> ends the process with status 0, \<open>sys.exit(1)\<close> with status 1.
\<close>

definition writer_main :: "filesystem \<Rightarrow> string list \<Rightarrow> writer_outcome" where
  "writer_main fs argv =
     (if length argv \<noteq> 4
      then \<lparr>stdout = py_print usage_doc, exit_code = 1, files = fs\<rparr>
      else
        (case add_youtube_credentials fs (argv ! 1) (argv ! 2) (argv ! 3) of
           Inl e \<Rightarrow> \<lparr>stdout = py_print (cross_mark @ '' Error: '' @ e), exit_code = 1, files = fs\<rparr>
         | Inr (fs', printed) \<Rightarrow> \<lparr>stdout = printed, exit_code = 0, files = fs'\<rparr>))"


section \<open>The credential extractor (extract_credentials.py)\<close>

text \<open>
  What \<open>json.load\<close> returns: \<open>None\<close>, a \<open>bool\<close>, an \<open>int\<close>, a \<open>float\<close>, a \<open>str\<close>, a \<open>list\<close> or a
  \<open>dict\<close> with \<open>str\<close> keys. A \<open>dict\<close> is given by an association list, looked up with
  \<^const>\<open>map_of\<close>. Of a \<open>float\<close> the script observes only whether it is zero.
\<close>

datatype json =
    JNull
  | JBool bool
  | JInt int
  | JFloat real
  | JStr string
  | JArr "json list"
  | JObj "(string \<times> json) list"

text \<open>The truth value of a value, as \<open>not v\<close> and \<open>if v:\<close> take it.\<close>

fun truthy :: "json \<Rightarrow> bool" where
  "truthy JNull = False"
| "truthy (JBool b) = b"
| "truthy (JInt i) = (i \<noteq> 0)"
| "truthy (JFloat x) = (x \<noteq> 0)"
| "truthy (JStr s) = (s \<noteq> [])"
| "truthy (JArr xs) = (xs \<noteq> [])"
| "truthy (JObj kvs) = (kvs \<noteq> [])"

text \<open>The name of the type of a value, as the interpreter's messages spell it.\<close>

fun type_name :: "json \<Rightarrow> string" where
  "type_name JNull = ''NoneType''"
| "type_name (JBool b) = ''bool''"
| "type_name (JInt i) = ''int''"
| "type_name (JFloat x) = ''float''"
| "type_name (JStr s) = ''str''"
| "type_name (JArr xs) = ''list''"
| "type_name (JObj kvs) = ''dict''"

text \<open>
  The three operations the script applies to the document. Each raises on the values that
  do not support it; \<open>Inl e\<close> is an exception whose text \<open>str(e)\<close> is \<open>e\<close> (the wording of
  CPython 3.12). \<open>k in data\<close> is key membership on a \<open>dict\<close>, element membership on a \<open>list\<close>
  and a substring test on a \<open>str\<close>.
\<close>

fun py_in :: "string \<Rightarrow> json \<Rightarrow> string + bool" where
  "py_in k (JObj kvs) = Inr (map_of kvs k \<noteq> None)"
| "py_in k (JArr xs) = Inr (JStr k \<in> set xs)"
| "py_in k (JStr s) = Inr (sublist k s)"
| "py_in k v = Inl (''argument of type '' @ [SQ] @ type_name v @ [SQ] @ '' is not iterable'')"

fun py_getitem :: "json \<Rightarrow> string \<Rightarrow> string + json" where
  "py_getitem (JObj kvs) k =
     (case map_of kvs k of
        Some v \<Rightarrow> Inr v
      | None \<Rightarrow> Inl ([SQ] @ k @ [SQ]))"
| "py_getitem (JArr xs) k = Inl ''list indices must be integers or slices, not str''"
| "py_getitem (JStr s) k = Inl (''string indices must be integers, not '' @ [SQ] @ ''str'' @ [SQ])"
| "py_getitem v k = Inl ([SQ] @ type_name v @ [SQ] @ '' object is not subscriptable'')"

fun py_get :: "json \<Rightarrow> string \<Rightarrow> string + json" where
  "py_get (JObj kvs) k =
     (case map_of kvs k of
        Some v \<Rightarrow> Inr v
      | None \<Rightarrow> Inr JNull)"
| "py_get v k =
     Inl ([SQ] @ type_name v @ [SQ] @ '' object has no attribute '' @ [SQ] @ ''get'' @ [SQ])"

text \<open>
  Lines 12 and 13, \<open>json.load\<close> on the opened file, seen from the script: the file is not
  there, its content is not JSON, some other exception is raised (with its text), or a
  value is returned.
\<close>

datatype load_result =
    FileNotFound
  | JSONDecodeError
  | OtherError string
  | Loaded json

text \<open>
  Lines 24 to 34, on the section that was chosen: \<open>Inl e\<close> for an exception, otherwise the
  text printed and the value returned (\<open>None\<close>, or the two credentials).
\<close>

definition read_section :: "json \<Rightarrow> string + string \<times> (json \<times> json) option" where
  "read_section credentials =
     (case py_get credentials ''client_id'' of
        Inl e \<Rightarrow> Inl e
      | Inr client_id \<Rightarrow>
          (case py_get credentials ''client_secret'' of
             Inl e \<Rightarrow> Inl e
           | Inr client_secret \<Rightarrow>
               if \<not> truthy client_id \<or> \<not> truthy client_secret
               then Inr (py_print (cross_mark
                           @ '' Error: Missing client_id or client_secret in JSON file''), None)
               else Inr ([], Some (client_id, client_secret))))"

text \<open>Lines 16 to 34, on the loaded document.\<close>

definition find_credentials :: "json \<Rightarrow> string + string \<times> (json \<times> json) option" where
  "find_credentials data =
     (case py_in ''installed'' data of
        Inl e \<Rightarrow> Inl e
      | Inr has_installed \<Rightarrow>
          if has_installed
          then (case py_getitem data ''installed'' of
                  Inl e \<Rightarrow> Inl e
                | Inr credentials \<Rightarrow> read_section credentials)
          else
            (case py_in ''web'' data of
               Inl e \<Rightarrow> Inl e
             | Inr has_web \<Rightarrow>
                 if has_web
                 then (case py_getitem data ''web'' of
                         Inl e \<Rightarrow> Inl e
                       | Inr credentials \<Rightarrow> read_section credentials)
                 else Inr (py_print (cross_mark @ '' Error: Could not find '' @ [SQ]
                             @ ''installed'' @ [SQ] @ '' or '' @ [SQ] @ ''web'' @ [SQ]
                             @ '' section in JSON file''), None)))"

text \<open>
  \<open>extract_credentials\<close>: the text printed and the value returned. The first argument
  says what loading the file at a path does.
\<close>

definition extract_credentials ::
    "(string \<Rightarrow> load_result) \<Rightarrow> string \<Rightarrow> string \<times> (json \<times> json) option" where
  "extract_credentials load json_file_path =
     (case load json_file_path of
        FileNotFound \<Rightarrow>
          (py_print (cross_mark @ '' Error: File '' @ [SQ] @ json_file_path @ [SQ]
             @ '' not found''), None)
      | JSONDecodeError \<Rightarrow> (py_print (cross_mark @ '' Error: Invalid JSON file''), None)
      | OtherError e \<Rightarrow> (py_print (cross_mark @ '' Error: '' @ e), None)
      | Loaded data \<Rightarrow>
          (case find_credentials data of
             Inl e \<Rightarrow> (py_print (cross_mark @ '' Error: '' @ e), None)
           | Inr r \<Rightarrow> r))"

text \<open>
  An f-string puts \<open>str(v)\<close> for a value \<open>v\<close>. For a \<open>str\<close> that is the string itself; for
  the other values it is the interpreter's rendering, which is a parameter here.
\<close>

definition py_str :: "(json \<Rightarrow> string) \<Rightarrow> json \<Rightarrow> string" where
  "py_str render v = (case v of JStr s \<Rightarrow> s | _ \<Rightarrow> render v)"

text \<open>
  \<open>main\<close>. The dictionary that \<open>extract_credentials\<close> returns has two entries, so
  \<open>if credentials:\<close> asks whether the result is \<open>None\<close>.
\<close>

definition extractor_main ::
    "(json \<Rightarrow> string) \<Rightarrow> (string \<Rightarrow> load_result) \<Rightarrow> string list \<Rightarrow> outcome" where
  "extractor_main render load argv =
     (if length argv \<noteq> 2
      then \<lparr>stdout = py_print ''Usage: python extract_credentials.py <path_to_json_file>''
                @ py_print (''Example: python extract_credentials.py ''
                     @ ''~/Downloads/client_secret_123456.json''),
            exit_code = 1\<rparr>
      else
        (case extract_credentials load (argv ! 1) of
           (printed, Some (client_id, client_secret)) \<Rightarrow>
             \<lparr>stdout = printed @ py_print (''clientId='' @ py_str render client_id)
                        @ py_print (''clientSecret='' @ py_str render client_secret),
              exit_code = 0\<rparr>
         | (printed, None) \<Rightarrow> \<lparr>stdout = printed, exit_code = 1\<rparr>))"


section \<open>Notions used to state the properties\<close>

text \<open>A text without a line break: neither \<open>\n\<close> nor \<open>\r\<close> occurs in it.\<close>

definition no_break :: "string \<Rightarrow> bool" where
  "no_break s = (NL \<notin> set s \<and> CR \<notin> set s)"

text \<open>A line that ends with its \<open>\n\<close> and has no other.\<close>

definition complete_line :: "string \<Rightarrow> bool" where
  "complete_line l = (l \<noteq> [] \<and> last l = NL \<and> NL \<notin> set (butlast l))"

text \<open>The lines for a key: those that begin with the key and \<open>=\<close>.\<close>

definition lines_for :: "string \<Rightarrow> string list \<Rightarrow> string list" where
  "lines_for key ls = filter (\<lambda>line. startswith line (key @ ''='')) ls"

text \<open>The lines that begin with neither key of a project, in their order.\<close>

definition other_lines :: "string \<Rightarrow> string list \<Rightarrow> string list" where
  "other_lines project_name ls = filter (\<lambda>line. \<not> is_existing project_name line) ls"

text \<open>The lines of the store, as \<open>readlines\<close> gives them; none when the file is absent.\<close>

definition store_lines :: "filesystem \<Rightarrow> string list" where
  "store_lines fs = (case api_keys fs of None \<Rightarrow> [] | Some content \<Rightarrow> readlines content)"

text \<open>The store is absent, empty, or its last line ends with a line terminator.\<close>

definition terminated :: "filesystem \<Rightarrow> bool" where
  "terminated fs =
     (case api_keys fs of
        None \<Rightarrow> True
      | Some content \<Rightarrow> content = [] \<or> last content = NL \<or> last content = CR)"

text \<open>The lines of a text that begin with a given prefix.\<close>

definition lines_starting :: "string \<Rightarrow> string \<Rightarrow> string list" where
  "lines_starting p text = filter (\<lambda>line. startswith line p) (split_lines text)"

text \<open>Whether a value is a \<open>dict\<close>.\<close>

fun is_object :: "json \<Rightarrow> bool" where
  "is_object (JObj kvs) = True"
| "is_object v = False"

text \<open>
  The section that the extractor reads in a \<open>dict\<close>: the entry \<open>installed\<close> when there is
  one, otherwise the entry \<open>web\<close>.
\<close>

definition chosen_section :: "(string \<times> json) list \<Rightarrow> json option" where
  "chosen_section kvs =
     (case map_of kvs ''installed'' of
        Some v \<Rightarrow> Some v
      | None \<Rightarrow> map_of kvs ''web'')"

text \<open>\<open>d.get(k)\<close> on a \<open>dict\<close>: the value of the key, \<open>None\<close> when the key is absent.\<close>

definition dict_get :: "(string \<times> json) list \<Rightarrow> string \<Rightarrow> json" where
  "dict_get kvs k = (case map_of kvs k of Some v \<Rightarrow> v | None \<Rightarrow> JNull)"

text \<open>
  A document of the wrong shape: it is not a \<open>dict\<close>, or the section that the extractor
  reads in it is not a \<open>dict\<close>.
\<close>

fun shape_error :: "json \<Rightarrow> bool" where
  "shape_error (JObj kvs) =
     (case chosen_section kvs of Some c \<Rightarrow> \<not> is_object c | None \<Rightarrow> False)"
| "shape_error v = True"

text \<open>
  Two fixed surroundings for the concrete runs below: loading any path gives the same
  result, and the values other than strings are rendered as the empty text (no concrete run
  below prints one).
\<close>

definition load_of :: "load_result \<Rightarrow> string \<Rightarrow> load_result" where
  "load_of r path = r"

definition no_render :: "json \<Rightarrow> string" where
  "no_render v = []"


section \<open>Lines\<close>

lemmas run_defs =
  writer_main_def add_youtube_credentials_def read_existing_def write_back_def
  update_lines_def confirmation_def client_id_key_def client_secret_key_def is_existing_def
  startswith_def readlines_def writelines_def py_print_def store_lines_def lines_for_def
  other_lines_def no_break_def terminated_def NL_def CR_def

lemmas extractor_defs =
  extractor_main_def extract_credentials_def find_credentials_def read_section_def
  py_str_def py_print_def load_of_def chosen_section_def dict_get_def cross_mark_def

lemma concat_split_lines: "concat (split_lines s) = s"
  by (induction s) (auto split: list.splits)

lemma split_lines_Nil_iff: "split_lines s = [] \<longleftrightarrow> s = []"
  by (cases s) (auto split: list.splits)

lemma split_lines_line:
  "NL \<notin> set b \<Longrightarrow> split_lines (b @ NL # rest) = (b @ [NL]) # split_lines rest"
  by (induction b) auto

lemma two_lines:
  assumes "NL \<notin> set a" and "NL \<notin> set b"
  shows "split_lines (a @ [NL] @ b @ [NL]) = [a @ [NL], b @ [NL]]"
  using split_lines_line [OF assms(1), of "b @ [NL]"] split_lines_line [OF assms(2), of "[]"]
  by simp

lemma complete_lineE: "complete_line l \<Longrightarrow> \<exists>b. l = b @ [NL] \<and> NL \<notin> set b"
  unfolding complete_line_def by (metis append_butlast_last_id)

lemma split_lines_concat:
  "\<forall>l\<in>set ls. complete_line l \<Longrightarrow> split_lines (concat ls @ t) = ls @ split_lines t"
proof (induction ls)
  case Nil
  then show ?case by simp
next
  case (Cons l ls)
  then obtain b where b: "l = b @ [NL]" "NL \<notin> set b"
    using complete_lineE by auto
  with Cons show ?case by (simp add: split_lines_line)
qed

lemma split_lines_complete:
  "s = [] \<or> last s = NL \<Longrightarrow> \<forall>l\<in>set (split_lines s). complete_line l"
proof (induction s)
  case Nil
  then show ?case by simp
next
  case (Cons c cs)
  show ?case
  proof (cases "cs = []")
    case True
    with Cons.prems show ?thesis by (simp add: complete_line_def)
  next
    case False
    with Cons.prems have "last cs = NL" by simp
    with Cons.IH have ih: "\<forall>l\<in>set (split_lines cs). complete_line l" by simp
    from False obtain l ls where sl: "split_lines cs = l # ls"
      by (cases "split_lines cs") (auto simp: split_lines_Nil_iff)
    with ih have "complete_line l" by simp
    then have "c \<noteq> NL \<Longrightarrow> complete_line (c # l)"
      by (auto simp: complete_line_def)
    with ih sl show ?thesis by (auto simp: complete_line_def)
  qed
qed

lemma universal_newlines_no_CR: "CR \<notin> set (universal_newlines s)"
  by (induction s rule: universal_newlines.induct) (auto simp: CR_def NL_def)

lemma universal_newlines_id: "CR \<notin> set s \<Longrightarrow> universal_newlines s = s"
  by (induction s rule: universal_newlines.induct) auto

lemma universal_newlines_Nil_iff: "universal_newlines s = [] \<longleftrightarrow> s = []"
  by (induction s rule: universal_newlines.induct) auto

lemma universal_newlines_last:
  "s \<noteq> [] \<Longrightarrow> last s = NL \<or> last s = CR \<Longrightarrow> last (universal_newlines s) = NL"
  by (induction s rule: universal_newlines.induct) (auto simp: universal_newlines_Nil_iff)


lemma readlines_writelines:
  assumes "\<forall>l\<in>set ls. complete_line l \<and> CR \<notin> set l"
  shows "readlines (writelines ls) = ls"
proof -
  from assms have "CR \<notin> set (concat ls)" by auto
  then have "universal_newlines (concat ls) = concat ls"
    by (rule universal_newlines_id)
  moreover from assms have "split_lines (concat ls @ []) = ls @ split_lines []"
    by (intro split_lines_concat) simp
  ultimately show ?thesis by (simp add: readlines_def writelines_def)
qed

lemma readlines_no_CR: "l \<in> set (readlines content) \<Longrightarrow> CR \<notin> set l"
proof -
  assume "l \<in> set (readlines content)"
  then have "set l \<subseteq> set (concat (split_lines (universal_newlines content)))"
    unfolding readlines_def by auto
  then show ?thesis
    using universal_newlines_no_CR [of content] by (auto simp: concat_split_lines)
qed

lemma readlines_complete:
  assumes "content = [] \<or> last content = NL \<or> last content = CR"
  shows "\<forall>l\<in>set (readlines content). complete_line l"
proof (cases "content = []")
  case True
  then show ?thesis by (simp add: readlines_def)
next
  case False
  with assms have "last (universal_newlines content) = NL"
    by (intro universal_newlines_last) auto
  then show ?thesis
    unfolding readlines_def by (intro split_lines_complete) simp
qed

lemma complete_new_line: "NL \<notin> set b \<Longrightarrow> complete_line (b @ [NL])"
  by (simp add: complete_line_def)

lemma id_line_not_secret:
  "\<not> startswith (client_id_key p @ ''='' @ v @ [NL]) (client_secret_key p @ ''='')"
  by (simp add: startswith_def client_id_key_def client_secret_key_def)

lemma secret_line_not_id:
  "\<not> startswith (client_secret_key p @ ''='' @ v @ [NL]) (client_id_key p @ ''='')"
  by (simp add: startswith_def client_id_key_def client_secret_key_def)

lemma id_line_starts: "startswith (client_id_key p @ ''='' @ v @ [NL]) (client_id_key p @ ''='')"
  by (simp add: startswith_def)

lemma secret_line_starts:
  "startswith (client_secret_key p @ ''='' @ v @ [NL]) (client_secret_key p @ ''='')"
  by (simp add: startswith_def)

lemma lines_for_update_id:
  "lines_for (client_id_key p) (update_lines p i s ls) = [client_id_key p @ ''='' @ i @ [NL]]"
proof -
  have "filter (\<lambda>line. startswith line (client_id_key p @ ''=''))
          (filter (\<lambda>line. \<not> is_existing p line) ls) = []"
    by (auto simp: filter_empty_conv is_existing_def)
  then show ?thesis
    using id_line_starts [of p i] secret_line_not_id [of p s]
    by (simp add: lines_for_def update_lines_def)
qed

lemma lines_for_update_secret:
  "lines_for (client_secret_key p) (update_lines p i s ls)
     = [client_secret_key p @ ''='' @ s @ [NL]]"
proof -
  have "filter (\<lambda>line. startswith line (client_secret_key p @ ''=''))
          (filter (\<lambda>line. \<not> is_existing p line) ls) = []"
    by (auto simp: filter_empty_conv is_existing_def)
  then show ?thesis
    using secret_line_starts [of p s] id_line_not_secret [of p i]
    by (simp add: lines_for_def update_lines_def)
qed

lemma other_lines_update: "other_lines p (update_lines p i s ls) = other_lines p ls"
  using id_line_starts [of p i] secret_line_starts [of p s]
  by (simp add: other_lines_def update_lines_def is_existing_def)

lemma update_lines_readable:
  assumes "\<forall>l\<in>set ls. complete_line l \<and> CR \<notin> set l"
    and "no_break p" and "no_break i" and "no_break s"
  shows "\<forall>l\<in>set (update_lines p i s ls). complete_line l \<and> CR \<notin> set l"
proof -
  have a: "complete_line ((client_id_key p @ ''='' @ i) @ [NL])"
    using assms(2,3)
    by (intro complete_new_line) (simp add: no_break_def client_id_key_def NL_def)
  have b: "complete_line ((client_secret_key p @ ''='' @ s) @ [NL])"
    using assms(2,4)
    by (intro complete_new_line) (simp add: no_break_def client_secret_key_def NL_def)
  have c: "CR \<notin> set (client_id_key p @ ''='' @ i @ [NL])"
    using assms(2,3) by (simp add: no_break_def client_id_key_def NL_def CR_def)
  have d: "CR \<notin> set (client_secret_key p @ ''='' @ s @ [NL])"
    using assms(2,4) by (simp add: no_break_def client_secret_key_def NL_def CR_def)
  from a b c d assms(1) show ?thesis
    by (auto simp: update_lines_def)
qed

lemma writer_main_success:
  assumes "exit_code (writer_main fs [prog, p, i, s]) = 0"
  shows "writer_main fs [prog, p, i, s]
           = \<lparr>stdout = confirmation p i s, exit_code = 0,
              files = fs\<lparr>api_keys := Some (writelines (update_lines p i s (store_lines fs)))\<rparr>\<rparr>"
  using assms
  by (auto simp: writer_main_def add_youtube_credentials_def read_existing_def write_back_def
        store_lines_def split: sum.splits option.splits)

lemma writer_main_no_fault:
  assumes "read_fault fs = None" and "write_fault fs = None"
  shows "exit_code (writer_main fs [prog, p, i, s]) = 0"
  using assms
  by (auto simp: writer_main_def add_youtube_credentials_def read_existing_def write_back_def
        split: sum.splits option.splits)


lemma store_lines_readable:
  "terminated fs \<Longrightarrow> \<forall>l\<in>set (store_lines fs). complete_line l \<and> CR \<notin> set l"
  using readlines_complete readlines_no_CR
  by (auto simp: terminated_def store_lines_def split: option.splits)

lemma store_lines_after:
  assumes "\<forall>l\<in>set (store_lines fs). complete_line l \<and> CR \<notin> set l"
    and "no_break p" and "no_break i" and "no_break s"
  shows "store_lines (fs\<lparr>api_keys := Some (writelines (update_lines p i s (store_lines fs)))\<rparr>)
           = update_lines p i s (store_lines fs)"
  using readlines_writelines [OF update_lines_readable [OF assms]]
  by (simp add: store_lines_def)


section \<open>The writer: what a successful run leaves in the store\<close>

text \<open>
  Claim C1, as amended. Let the store be absent, empty or end with a line terminator, and
  let the project name, the client id and the client secret contain no line break. After a
  run of the writer that exits with status 0, the lines of the store are the former lines
  that begin with neither derived key followed by \<open>=\<close>, unchanged and in their order,
  followed by the line of the client id and the line of the client secret. So there is
  exactly one line for each derived key, it holds the value just supplied, and the other
  lines keep their content and relative position.
\<close>

theorem writer_upsert:
  assumes "exit_code (writer_main fs [prog, p, i, s]) = 0"
    and "terminated fs" and "no_break p" and "no_break i" and "no_break s"
  shows "store_lines (files (writer_main fs [prog, p, i, s]))
           = other_lines p (store_lines fs)
               @ [client_id_key p @ ''='' @ i @ [NL], client_secret_key p @ ''='' @ s @ [NL]]
         \<and> lines_for (client_id_key p) (store_lines (files (writer_main fs [prog, p, i, s])))
             = [client_id_key p @ ''='' @ i @ [NL]]
         \<and> lines_for (client_secret_key p) (store_lines (files (writer_main fs [prog, p, i, s])))
             = [client_secret_key p @ ''='' @ s @ [NL]]
         \<and> other_lines p (store_lines (files (writer_main fs [prog, p, i, s])))
             = other_lines p (store_lines fs)"
proof -
  have run: "store_lines (files (writer_main fs [prog, p, i, s]))
               = update_lines p i s (store_lines fs)"
    using writer_main_success [OF assms(1)]
      store_lines_after [OF store_lines_readable [OF assms(2)] assms(3,4,5)]
    by simp
  show ?thesis
    unfolding run
    by (simp add: lines_for_update_id lines_for_update_secret other_lines_update)
      (simp add: update_lines_def other_lines_def)
qed

text \<open>An instance: a store with a foreign line and a stale client id of project \<open>P\<close>.\<close>

theorem writer_upsert_witness:
  "exit_code (writer_main
      \<lparr>api_keys = Some (''OTHER=1'' @ [NL] @ ''P_YouTube_Client_ID=old'' @ [NL]),
       read_fault = None, write_fault = None\<rparr>
      [''add_youtube_credentials.py'', ''P'', ''id'', ''secret'']) = 0
   \<and> terminated \<lparr>api_keys = Some (''OTHER=1'' @ [NL] @ ''P_YouTube_Client_ID=old'' @ [NL]),
       read_fault = None, write_fault = None\<rparr>
   \<and> no_break ''P'' \<and> no_break ''id'' \<and> no_break ''secret''
   \<and> store_lines (files (writer_main
      \<lparr>api_keys = Some (''OTHER=1'' @ [NL] @ ''P_YouTube_Client_ID=old'' @ [NL]),
       read_fault = None, write_fault = None\<rparr>
      [''add_youtube_credentials.py'', ''P'', ''id'', ''secret'']))
     = [''OTHER=1'' @ [NL], ''P_YouTube_Client_ID=id'' @ [NL],
        ''P_YouTube_Client_Secret=secret'' @ [NL]]"
  using writer_upsert [of
      "\<lparr>api_keys = Some (''OTHER=1'' @ [NL] @ ''P_YouTube_Client_ID=old'' @ [NL]),
        read_fault = None, write_fault = None\<rparr>"
      "''add_youtube_credentials.py''" "''P''" "''id''" "''secret''"]
  by (simp add: run_defs)

text \<open>
  Without the restriction on the values the claim fails: a client id that carries a line
  break and, after it, the text of a client id line leaves two lines for the derived key.
\<close>

theorem writer_upsert_counterexample:
  "lines_for (client_id_key ''P'')
     (store_lines (files (writer_main
        \<lparr>api_keys = None, read_fault = None, write_fault = None\<rparr>
        [''add_youtube_credentials.py'', ''P'', ''x'' @ [NL] @ ''P_YouTube_Client_ID=y'',
         ''s''])))
   = [''P_YouTube_Client_ID=x'' @ [NL], ''P_YouTube_Client_ID=y'' @ [NL]]"
  by (simp add: run_defs)


text \<open>
  Claim C2, as amended. Let the store be absent or empty and let no fault occur. The run
  exits with status 0 and the store then holds \<open>{project}_YouTube_Client_ID={id}\<close> and a
  newline, then \<open>{project}_YouTube_Client_Secret={secret}\<close> and a newline, and nothing else.
  When the project name, the client id and the client secret contain no line break, these
  are the two lines of the store, in this order.
\<close>

theorem writer_empty_store:
  assumes "api_keys fs = None \<or> api_keys fs = Some []"
    and "read_fault fs = None" and "write_fault fs = None"
  shows "writer_main fs [prog, p, i, s]
           = \<lparr>stdout = confirmation p i s, exit_code = 0,
              files = fs\<lparr>api_keys := Some (p @ ''_YouTube_Client_ID='' @ i @ [NL]
                                            @ p @ ''_YouTube_Client_Secret='' @ s @ [NL])\<rparr>\<rparr>
         \<and> (no_break p \<and> no_break i \<and> no_break s \<longrightarrow>
              store_lines (files (writer_main fs [prog, p, i, s]))
                = [p @ ''_YouTube_Client_ID='' @ i @ [NL],
                   p @ ''_YouTube_Client_Secret='' @ s @ [NL]])"
proof -
  have ok: "exit_code (writer_main fs [prog, p, i, s]) = 0"
    using assms(2,3) by (rule writer_main_no_fault)
  have empty: "store_lines fs = []"
    using assms(1) by (auto simp: store_lines_def readlines_def)
  have t: "terminated fs"
    using assms(1) by (auto simp: terminated_def)
  have run: "writer_main fs [prog, p, i, s]
           = \<lparr>stdout = confirmation p i s, exit_code = 0,
              files = fs\<lparr>api_keys := Some (writelines (update_lines p i s []))\<rparr>\<rparr>"
    using writer_main_success [OF ok] empty by simp
  have written: "writelines (update_lines p i s [])
                = p @ ''_YouTube_Client_ID='' @ i @ [NL] @ p @ ''_YouTube_Client_Secret='' @ s @ [NL]"
    by (simp add: update_lines_def writelines_def client_id_key_def client_secret_key_def)
  have after: "store_lines (fs\<lparr>api_keys := Some (writelines (update_lines p i s []))\<rparr>)
                 = update_lines p i s []"
    if "no_break p" and "no_break i" and "no_break s"
    using store_lines_after [OF store_lines_readable [OF t] that] empty by simp
  show ?thesis
    unfolding run using after written
    by (simp add: update_lines_def client_id_key_def client_secret_key_def)
qed

text \<open>An instance, with the values of the usage text's example.\<close>

theorem writer_empty_store_witness:
  "(api_keys \<lparr>api_keys = None, read_fault = None, write_fault = None\<rparr> = None
      \<or> api_keys \<lparr>api_keys = None, read_fault = None, write_fault = None\<rparr> = Some [])
   \<and> read_fault \<lparr>api_keys = None, read_fault = None, write_fault = None\<rparr> = None
   \<and> write_fault \<lparr>api_keys = None, read_fault = None, write_fault = None\<rparr> = None
   \<and> no_break ''Gaming'' \<and> no_break ''123.apps'' \<and> no_break ''GOCSPX-secret123''
   \<and> api_keys (files (writer_main \<lparr>api_keys = None, read_fault = None, write_fault = None\<rparr>
        [''add_youtube_credentials.py'', ''Gaming'', ''123.apps'', ''GOCSPX-secret123'']))
      = Some (''Gaming_YouTube_Client_ID=123.apps'' @ [NL]
              @ ''Gaming_YouTube_Client_Secret=GOCSPX-secret123'' @ [NL])
   \<and> store_lines (files (writer_main \<lparr>api_keys = None, read_fault = None, write_fault = None\<rparr>
        [''add_youtube_credentials.py'', ''Gaming'', ''123.apps'', ''GOCSPX-secret123'']))
      = [''Gaming_YouTube_Client_ID=123.apps'' @ [NL],
         ''Gaming_YouTube_Client_Secret=GOCSPX-secret123'' @ [NL]]"
  using writer_empty_store [of "\<lparr>api_keys = None, read_fault = None, write_fault = None\<rparr>"
      "''add_youtube_credentials.py''" "''Gaming''" "''123.apps''" "''GOCSPX-secret123''"]
  by (simp add: run_defs)

text \<open>A client id with a line break gives a store of three lines.\<close>

theorem writer_empty_store_counterexample:
  "store_lines (files (writer_main \<lparr>api_keys = None, read_fault = None, write_fault = None\<rparr>
      [''add_youtube_credentials.py'', ''P'', ''a'' @ [NL] @ ''b'', ''s'']))
   = [''P_YouTube_Client_ID=a'' @ [NL], ''b'' @ [NL], ''P_YouTube_Client_Secret=s'' @ [NL]]"
  by (simp add: run_defs)


section \<open>The writer: running it twice for one project\<close>

lemma terminated_after_write:
  "terminated (fs\<lparr>api_keys := Some (writelines (update_lines p i s ls))\<rparr>)"
  by (simp add: terminated_def writelines_def update_lines_def)

text \<open>
  Claim C3, as amended. Let the project name and the values of the second run contain no
  line break. After two runs for the same project that both exit with status 0, whatever
  the store was before and whatever the values of the first run were, the store has exactly
  one line for each of the two derived keys, and it holds the value of the second run.
\<close>

theorem writer_twice:
  assumes "exit_code (writer_main fs [prog, p, i1, s1]) = 0"
    and "exit_code (writer_main (files (writer_main fs [prog, p, i1, s1])) [prog, p, i2, s2]) = 0"
    and "no_break p" and "no_break i2" and "no_break s2"
  shows "lines_for (client_id_key p)
            (store_lines (files (writer_main (files (writer_main fs [prog, p, i1, s1]))
               [prog, p, i2, s2])))
           = [client_id_key p @ ''='' @ i2 @ [NL]]
         \<and> lines_for (client_secret_key p)
            (store_lines (files (writer_main (files (writer_main fs [prog, p, i1, s1]))
               [prog, p, i2, s2])))
           = [client_secret_key p @ ''='' @ s2 @ [NL]]"
proof -
  define fs1 where "fs1 = files (writer_main fs [prog, p, i1, s1])"
  have "fs1 = fs\<lparr>api_keys := Some (writelines (update_lines p i1 s1 (store_lines fs)))\<rparr>"
    unfolding fs1_def using writer_main_success [OF assms(1)] by simp
  then have t: "terminated fs1"
    by (simp add: terminated_after_write)
  have ok: "exit_code (writer_main fs1 [prog, p, i2, s2]) = 0"
    using assms(2) by (simp add: fs1_def)
  have "store_lines (files (writer_main fs1 [prog, p, i2, s2]))
          = update_lines p i2 s2 (store_lines fs1)"
    using writer_main_success [OF ok]
      store_lines_after [OF store_lines_readable [OF t] assms(3,4,5)]
    by simp
  then show ?thesis
    unfolding fs1_def [symmetric]
    by (simp add: lines_for_update_id lines_for_update_secret)
qed

text \<open>An instance: the pair of the first run is replaced by the pair of the second.\<close>

theorem writer_twice_witness:
  "exit_code (writer_main \<lparr>api_keys = Some (''OTHER=1'' @ [NL]), read_fault = None, write_fault = None\<rparr>
      [''add_youtube_credentials.py'', ''P'', ''id1'', ''sec1'']) = 0
   \<and> exit_code (writer_main
        (files (writer_main \<lparr>api_keys = Some (''OTHER=1'' @ [NL]), read_fault = None, write_fault = None\<rparr>
           [''add_youtube_credentials.py'', ''P'', ''id1'', ''sec1'']))
        [''add_youtube_credentials.py'', ''P'', ''id2'', ''sec2'']) = 0
   \<and> no_break ''P'' \<and> no_break ''id2'' \<and> no_break ''sec2''
   \<and> store_lines (files (writer_main
        (files (writer_main \<lparr>api_keys = Some (''OTHER=1'' @ [NL]), read_fault = None, write_fault = None\<rparr>
           [''add_youtube_credentials.py'', ''P'', ''id1'', ''sec1'']))
        [''add_youtube_credentials.py'', ''P'', ''id2'', ''sec2'']))
      = [''OTHER=1'' @ [NL], ''P_YouTube_Client_ID=id2'' @ [NL],
         ''P_YouTube_Client_Secret=sec2'' @ [NL]]"
  using writer_twice [of
      "\<lparr>api_keys = Some (''OTHER=1'' @ [NL]), read_fault = None, write_fault = None\<rparr>"
      "''add_youtube_credentials.py''" "''P''" "''id1''" "''sec1''" "''id2''" "''sec2''"]
  by (simp add: run_defs)

text \<open>
  With a project name that spans two lines no line of the store begins with a derived
  key: the second run removes nothing, and no line for the key is found afterwards.
\<close>

theorem writer_twice_counterexample:
  "store_lines (files (writer_main
      (files (writer_main \<lparr>api_keys = None, read_fault = None, write_fault = None\<rparr>
         [''add_youtube_credentials.py'', ''A'' @ [NL] @ ''B'', ''x1'', ''y1'']))
      [''add_youtube_credentials.py'', ''A'' @ [NL] @ ''B'', ''x2'', ''y2'']))
   = [''A'' @ [NL], ''B_YouTube_Client_ID=x1'' @ [NL],
      ''A'' @ [NL], ''B_YouTube_Client_Secret=y1'' @ [NL],
      ''A'' @ [NL], ''B_YouTube_Client_ID=x2'' @ [NL],
      ''A'' @ [NL], ''B_YouTube_Client_Secret=y2'' @ [NL]]
   \<and> lines_for (client_id_key (''A'' @ [NL] @ ''B''))
       (store_lines (files (writer_main
          (files (writer_main \<lparr>api_keys = None, read_fault = None, write_fault = None\<rparr>
             [''add_youtube_credentials.py'', ''A'' @ [NL] @ ''B'', ''x1'', ''y1'']))
          [''add_youtube_credentials.py'', ''A'' @ [NL] @ ''B'', ''x2'', ''y2'']))) = []"
  by (simp add: run_defs)


section \<open>The writer: lines of another project\<close>

text \<open>
  Claim C4, at a store whose last line has no newline. Project \<open>A\<close> has its two lines in
  the store, the second one without a final newline. A run for project \<open>B\<close> exits with
  status 0 and appends the client id line of \<open>B\<close> directly to the last line of \<open>A\<close>: the
  stored client secret line of \<open>A\<close> is altered, and no line begins with the client id key
  of \<open>B\<close>.
\<close>

theorem writer_glues_last_line:
  "writer_main
     \<lparr>api_keys = Some (''A_YouTube_Client_ID=a'' @ [NL] @ ''A_YouTube_Client_Secret=s''),
      read_fault = None, write_fault = None\<rparr>
     [''add_youtube_credentials.py'', ''B'', ''x'', ''y'']
   = \<lparr>stdout = confirmation ''B'' ''x'' ''y'', exit_code = 0,
      files = \<lparr>api_keys = Some (''A_YouTube_Client_ID=a'' @ [NL]
                   @ ''A_YouTube_Client_Secret=sB_YouTube_Client_ID=x'' @ [NL]
                   @ ''B_YouTube_Client_Secret=y'' @ [NL]),
               read_fault = None, write_fault = None\<rparr>\<rparr>
   \<and> store_lines \<lparr>api_keys = Some (''A_YouTube_Client_ID=a'' @ [NL] @ ''A_YouTube_Client_Secret=s''),
      read_fault = None, write_fault = None\<rparr>
     = [''A_YouTube_Client_ID=a'' @ [NL], ''A_YouTube_Client_Secret=s'']
   \<and> store_lines (files (writer_main
     \<lparr>api_keys = Some (''A_YouTube_Client_ID=a'' @ [NL] @ ''A_YouTube_Client_Secret=s''),
      read_fault = None, write_fault = None\<rparr>
     [''add_youtube_credentials.py'', ''B'', ''x'', ''y'']))
     = [''A_YouTube_Client_ID=a'' @ [NL], ''A_YouTube_Client_Secret=sB_YouTube_Client_ID=x'' @ [NL],
        ''B_YouTube_Client_Secret=y'' @ [NL]]
   \<and> lines_for (client_id_key ''B'') (store_lines (files (writer_main
     \<lparr>api_keys = Some (''A_YouTube_Client_ID=a'' @ [NL] @ ''A_YouTube_Client_Secret=s''),
      read_fault = None, write_fault = None\<rparr>
     [''add_youtube_credentials.py'', ''B'', ''x'', ''y'']))) = []"
  by (simp add: writer_main_def add_youtube_credentials_def read_existing_def write_back_def
      update_lines_def client_id_key_def client_secret_key_def is_existing_def
      startswith_def readlines_def writelines_def store_lines_def lines_for_def NL_def CR_def)


section \<open>The writer: the usage path and the confirmation\<close>

text \<open>
  Claim C9. When \<open>sys.argv\<close> does not have exactly four entries (the program name and three
  arguments), the writer prints its usage text, exits with status 1, and the file system is
  as before: the store is neither created nor modified.
\<close>

theorem writer_wrong_argument_count:
  assumes "length argv \<noteq> 4"
  shows "writer_main fs argv = \<lparr>stdout = py_print usage_doc, exit_code = 1, files = fs\<rparr>"
  using assms by (simp add: writer_main_def)

text \<open>Two arguments with no store, four arguments with a store.\<close>

theorem writer_wrong_argument_count_witness:
  "length [''add_youtube_credentials.py'', ''P'', ''id''] \<noteq> 4
   \<and> length [''add_youtube_credentials.py'', ''P'', ''id'', ''secret'', ''extra''] \<noteq> 4
   \<and> writer_main \<lparr>api_keys = None, read_fault = None, write_fault = None\<rparr>
        [''add_youtube_credentials.py'', ''P'', ''id'']
      = \<lparr>stdout = py_print usage_doc, exit_code = 1,
         files = \<lparr>api_keys = None, read_fault = None, write_fault = None\<rparr>\<rparr>
   \<and> writer_main \<lparr>api_keys = Some (''OTHER=1'' @ [NL]), read_fault = None, write_fault = None\<rparr>
        [''add_youtube_credentials.py'', ''P'', ''id'', ''secret'', ''extra'']
      = \<lparr>stdout = py_print usage_doc, exit_code = 1,
         files = \<lparr>api_keys = Some (''OTHER=1'' @ [NL]), read_fault = None, write_fault = None\<rparr>\<rparr>"
  using writer_wrong_argument_count [of "[''add_youtube_credentials.py'', ''P'', ''id'']"
      "\<lparr>api_keys = None, read_fault = None, write_fault = None\<rparr>"]
    writer_wrong_argument_count
      [of "[''add_youtube_credentials.py'', ''P'', ''id'', ''secret'', ''extra'']"
      "\<lparr>api_keys = Some (''OTHER=1'' @ [NL]), read_fault = None, write_fault = None\<rparr>"]
  by simp

text \<open>
  Claim C8, as amended. The confirmation of a successful run consists of the success
  marker with the project name, the full client id, the first 10 characters of the secret
  followed by \<open>...\<close>, and the two key names. Standard output depends on the secret through
  its first 10 characters only: two runs on the same file system, project and client id
  whose secrets agree on their first 10 characters print the same text.
\<close>

theorem confirmation_preview:
  "(exit_code (writer_main fs [prog, p, i, s]) = 0 \<longrightarrow>
      stdout (writer_main fs [prog, p, i, s])
        = check_mark @ '' YouTube credentials added for project: '' @ p @ [NL]
          @ ''   Client ID: '' @ i @ [NL]
          @ ''   Client Secret: '' @ take 10 s @ ''...'' @ [NL]
          @ ''   Keys added to api_keys.txt: '' @ p @ ''_YouTube_Client_ID, ''
          @ p @ ''_YouTube_Client_Secret'' @ [NL])
   \<and> (take 10 s = take 10 s' \<longrightarrow>
        stdout (writer_main fs [prog, p, i, s]) = stdout (writer_main fs [prog, p, i, s']))"
proof (intro conjI impI)
  assume "exit_code (writer_main fs [prog, p, i, s]) = 0"
  from writer_main_success [OF this]
  show "stdout (writer_main fs [prog, p, i, s])
        = check_mark @ '' YouTube credentials added for project: '' @ p @ [NL]
          @ ''   Client ID: '' @ i @ [NL]
          @ ''   Client Secret: '' @ take 10 s @ ''...'' @ [NL]
          @ ''   Keys added to api_keys.txt: '' @ p @ ''_YouTube_Client_ID, ''
          @ p @ ''_YouTube_Client_Secret'' @ [NL]"
    by (simp add: confirmation_def py_print_def client_id_key_def client_secret_key_def)
next
  assume "take 10 s = take 10 s'"
  then have "confirmation p i s = confirmation p i s'"
    by (simp add: confirmation_def)
  then show "stdout (writer_main fs [prog, p, i, s]) = stdout (writer_main fs [prog, p, i, s'])"
    by (auto simp: writer_main_def add_youtube_credentials_def read_existing_def write_back_def
          split: sum.splits option.splits)
qed

text \<open>Two secrets that differ after their tenth character.\<close>

theorem confirmation_preview_witness:
  "exit_code (writer_main \<lparr>api_keys = None, read_fault = None, write_fault = None\<rparr>
      [''add_youtube_credentials.py'', ''P'', ''id'', ''GOCSPX-secret123'']) = 0
   \<and> take 10 ''GOCSPX-secret123'' = take 10 ''GOCSPX-secOTHER''
   \<and> stdout (writer_main \<lparr>api_keys = None, read_fault = None, write_fault = None\<rparr>
        [''add_youtube_credentials.py'', ''P'', ''id'', ''GOCSPX-secret123''])
      = check_mark @ '' YouTube credentials added for project: P'' @ [NL]
          @ ''   Client ID: id'' @ [NL]
          @ ''   Client Secret: GOCSPX-sec...'' @ [NL]
          @ ''   Keys added to api_keys.txt: P_YouTube_Client_ID, P_YouTube_Client_Secret'' @ [NL]
   \<and> stdout (writer_main \<lparr>api_keys = None, read_fault = None, write_fault = None\<rparr>
        [''add_youtube_credentials.py'', ''P'', ''id'', ''GOCSPX-secret123''])
      = stdout (writer_main \<lparr>api_keys = None, read_fault = None, write_fault = None\<rparr>
        [''add_youtube_credentials.py'', ''P'', ''id'', ''GOCSPX-secOTHER''])"
  using confirmation_preview [of "\<lparr>api_keys = None, read_fault = None, write_fault = None\<rparr>"
      "''add_youtube_credentials.py''" "''P''" "''id''" "''GOCSPX-secret123''" "''GOCSPX-secOTHER''"]
  by (simp add: run_defs)

text \<open>A secret of at most 10 characters is printed whole.\<close>

theorem confirmation_preview_counterexample:
  "sublist ''hunter2''
     (stdout (writer_main \<lparr>api_keys = None, read_fault = None, write_fault = None\<rparr>
        [''add_youtube_credentials.py'', ''P'', ''id'', ''hunter2'']))"
proof -
  have "stdout (writer_main \<lparr>api_keys = None, read_fault = None, write_fault = None\<rparr>
        [''add_youtube_credentials.py'', ''P'', ''id'', ''hunter2''])
      = (check_mark @ '' YouTube credentials added for project: P'' @ [NL]
          @ ''   Client ID: id'' @ [NL] @ ''   Client Secret: '')
        @ ''hunter2''
        @ (''...'' @ [NL]
          @ ''   Keys added to api_keys.txt: P_YouTube_Client_ID, P_YouTube_Client_Secret'' @ [NL])"
    by (simp add: run_defs)
  then show ?thesis
    by (simp only: sublist_appendI)
qed


section \<open>The extractor: the paths through the script\<close>

lemma extractor_main_some:
  "extract_credentials load path = (printed, Some (a, b)) \<Longrightarrow>
   extractor_main render load [prog, path]
     = \<lparr>stdout = printed @ py_print (''clientId='' @ py_str render a)
                 @ py_print (''clientSecret='' @ py_str render b),
        exit_code = 0\<rparr>"
  by (simp add: extractor_main_def)

lemma extractor_main_none:
  "extract_credentials load path = (printed, None) \<Longrightarrow>
   extractor_main render load [prog, path] = \<lparr>stdout = printed, exit_code = 1\<rparr>"
  by (simp add: extractor_main_def)

lemma find_credentials_object:
  "find_credentials (JObj kvs) =
     (case chosen_section kvs of
        Some c \<Rightarrow> read_section c
      | None \<Rightarrow> Inr (py_print (cross_mark @ '' Error: Could not find '' @ [SQ]
                             @ ''installed'' @ [SQ] @ '' or '' @ [SQ] @ ''web'' @ [SQ]
                             @ '' section in JSON file''), None))"
  by (auto simp: find_credentials_def chosen_section_def split: option.splits)

lemma read_section_object:
  "read_section (JObj sec) =
     (if \<not> truthy (dict_get sec ''client_id'') \<or> \<not> truthy (dict_get sec ''client_secret'')
      then Inr (py_print (cross_mark
                  @ '' Error: Missing client_id or client_secret in JSON file''), None)
      else Inr ([], Some (dict_get sec ''client_id'', dict_get sec ''client_secret'')))"
  by (auto simp: read_section_def dict_get_def split: option.splits)

lemma read_section_no_object:
  "\<not> is_object c \<Longrightarrow>
   read_section c
     = Inl ([SQ] @ type_name c @ [SQ] @ '' object has no attribute '' @ [SQ] @ ''get'' @ [SQ])"
  by (cases c) (simp_all add: read_section_def)

lemma type_name_no_NL: "NL \<notin> set (type_name v)"
  by (cases v) (simp_all add: NL_def)

lemma error_line_lines:
  assumes "NL \<notin> set m"
  shows "split_lines (py_print (cross_mark @ '' Error: '' @ m))
           = [cross_mark @ '' Error: '' @ m @ [NL]]"
proof -
  have "NL \<notin> set (cross_mark @ '' Error: '' @ m)"
    using assms by (simp add: cross_mark_def NL_def)
  from split_lines_line [OF this, of "[]"] show ?thesis
    by (simp add: py_print_def)
qed

lemma error_line_no_credentials:
  assumes "NL \<notin> set m"
  shows "lines_starting ''clientId='' (py_print (cross_mark @ '' Error: '' @ m)) = []"
    and "lines_starting ''clientSecret='' (py_print (cross_mark @ '' Error: '' @ m)) = []"
  unfolding lines_starting_def error_line_lines [OF assms]
  by (simp_all add: startswith_def cross_mark_def)

lemma shape_error_message:
  assumes "shape_error data"
  shows "\<exists>m. NL \<notin> set m \<and>
           (case find_credentials data of
              Inl e \<Rightarrow> (py_print (cross_mark @ '' Error: '' @ e), None)
            | Inr r \<Rightarrow> r) = (py_print (cross_mark @ '' Error: '' @ m), None)"
proof (cases data)
  case (JObj kvs)
  with assms obtain c where c: "chosen_section kvs = Some c" "\<not> is_object c"
    by (auto split: option.splits)
  have "NL \<notin> set ([SQ] @ type_name c @ [SQ] @ '' object has no attribute '' @ [SQ] @ ''get'' @ [SQ])"
    using type_name_no_NL [of c] by (simp add: NL_def SQ_def)
  then show ?thesis
    unfolding JObj find_credentials_object c(1) using read_section_no_object [OF c(2)]
    by (intro exI conjI) (assumption, simp)
next
  case (JArr xs)
  have a: "NL \<notin> set ''list indices must be integers or slices, not str''"
    by (simp add: NL_def)
  have b: "NL \<notin> set (''Could not find '' @ [SQ] @ ''installed'' @ [SQ] @ '' or '' @ [SQ]
                     @ ''web'' @ [SQ] @ '' section in JSON file'')"
    by (simp add: NL_def SQ_def)
  show ?thesis
  proof (cases "JStr ''installed'' \<in> set xs \<or> JStr ''web'' \<in> set xs")
    case True
    then show ?thesis
      unfolding JArr using a by (intro exI conjI) (assumption, auto simp: find_credentials_def)
  next
    case False
    then show ?thesis
      unfolding JArr using b by (intro exI conjI) (assumption, auto simp: find_credentials_def)
  qed
next
  case (JStr s)
  have a: "NL \<notin> set (''string indices must be integers, not '' @ [SQ] @ ''str'' @ [SQ])"
    by (simp add: NL_def SQ_def)
  have b: "NL \<notin> set (''Could not find '' @ [SQ] @ ''installed'' @ [SQ] @ '' or '' @ [SQ]
                     @ ''web'' @ [SQ] @ '' section in JSON file'')"
    by (simp add: NL_def SQ_def)
  show ?thesis
  proof (cases "sublist ''installed'' s \<or> sublist ''web'' s")
    case True
    then show ?thesis
      unfolding JStr using a by (intro exI conjI) (assumption, auto simp: find_credentials_def)
  next
    case False
    then show ?thesis
      unfolding JStr using b by (intro exI conjI) (assumption, auto simp: find_credentials_def)
  qed
next
  case JNull
  have "NL \<notin> set (''argument of type '' @ [SQ] @ type_name data @ [SQ] @ '' is not iterable'')"
    using type_name_no_NL [of data] by (simp add: NL_def SQ_def)
  then show ?thesis
    unfolding JNull by (intro exI conjI) (assumption, simp add: find_credentials_def)
next
  case (JBool b)
  have "NL \<notin> set (''argument of type '' @ [SQ] @ type_name data @ [SQ] @ '' is not iterable'')"
    using type_name_no_NL [of data] by (simp add: NL_def SQ_def)
  then show ?thesis
    unfolding JBool by (intro exI conjI) (assumption, simp add: find_credentials_def)
next
  case (JInt i)
  have "NL \<notin> set (''argument of type '' @ [SQ] @ type_name data @ [SQ] @ '' is not iterable'')"
    using type_name_no_NL [of data] by (simp add: NL_def SQ_def)
  then show ?thesis
    unfolding JInt by (intro exI conjI) (assumption, simp add: find_credentials_def)
next
  case (JFloat x)
  have "NL \<notin> set (''argument of type '' @ [SQ] @ type_name data @ [SQ] @ '' is not iterable'')"
    using type_name_no_NL [of data] by (simp add: NL_def SQ_def)
  then show ?thesis
    unfolding JFloat by (intro exI conjI) (assumption, simp add: find_credentials_def)
qed


section \<open>The extractor: a well-formed document\<close>

text \<open>
  Claim C5, as amended. For all non-empty strings \<open>X\<close> and \<open>Y\<close>, on the document
  \<open>{"installed": {"client_id": X, "client_secret": Y}}\<close> the extractor prints exactly
  \<open>clientId=X\<close> and a newline, then \<open>clientSecret=Y\<close> and a newline, and exits with status 0;
  on the same document with \<open>web\<close> in place of \<open>installed\<close> it does the same. When \<open>X\<close> and
  \<open>Y\<close> contain no line break, these are the two lines of the output.
\<close>

theorem extractor_prints_pair:
  assumes "X \<noteq> []" and "Y \<noteq> []"
    and "sect = ''installed'' \<or> sect = ''web''"
    and "load path = Loaded (JObj [(sect, JObj [(''client_id'', JStr X),
                                                   (''client_secret'', JStr Y)])])"
  shows "extractor_main render load [prog, path]
           = \<lparr>stdout = ''clientId='' @ X @ [NL] @ ''clientSecret='' @ Y @ [NL], exit_code = 0\<rparr>
         \<and> (no_break X \<and> no_break Y \<longrightarrow>
              split_lines (stdout (extractor_main render load [prog, path]))
                = [''clientId='' @ X @ [NL], ''clientSecret='' @ Y @ [NL]])"
proof -
  have run: "extractor_main render load [prog, path]
           = \<lparr>stdout = ''clientId='' @ X @ [NL] @ ''clientSecret='' @ Y @ [NL], exit_code = 0\<rparr>"
    using assms
    by (auto simp: extractor_main_def extract_credentials_def find_credentials_def
          read_section_def py_str_def py_print_def)
  have "split_lines ((''clientId='' @ X) @ [NL] @ (''clientSecret='' @ Y) @ [NL])
          = [(''clientId='' @ X) @ [NL], (''clientSecret='' @ Y) @ [NL]]"
    if "no_break X" and "no_break Y"
    using that by (intro two_lines) (simp_all add: no_break_def NL_def)
  then show ?thesis
    unfolding run by simp
qed

text \<open>The two documents with the values of the writer's usage example.\<close>

theorem extractor_prints_pair_witness:
  "''123.apps'' \<noteq> [] \<and> ''GOCSPX-secret123'' \<noteq> []
   \<and> (''installed'' = ''installed'' \<or> ''installed'' = ''web'')
   \<and> (''web'' = ''installed'' \<or> ''web'' = ''web'')
   \<and> no_break ''123.apps'' \<and> no_break ''GOCSPX-secret123''
   \<and> load_of (Loaded (JObj [(''installed'', JObj [(''client_id'', JStr ''123.apps''),
                                   (''client_secret'', JStr ''GOCSPX-secret123'')])]))
        ''client_secret.json''
      = Loaded (JObj [(''installed'', JObj [(''client_id'', JStr ''123.apps''),
                                   (''client_secret'', JStr ''GOCSPX-secret123'')])])
   \<and> extractor_main no_render
        (load_of (Loaded (JObj [(''installed'', JObj [(''client_id'', JStr ''123.apps''),
                                   (''client_secret'', JStr ''GOCSPX-secret123'')])])))
        [''extract_credentials.py'', ''client_secret.json'']
      = \<lparr>stdout = ''clientId=123.apps'' @ [NL] @ ''clientSecret=GOCSPX-secret123'' @ [NL],
         exit_code = 0\<rparr>
   \<and> load_of (Loaded (JObj [(''web'', JObj [(''client_id'', JStr ''123.apps''),
                                   (''client_secret'', JStr ''GOCSPX-secret123'')])]))
        ''client_secret.json''
      = Loaded (JObj [(''web'', JObj [(''client_id'', JStr ''123.apps''),
                                   (''client_secret'', JStr ''GOCSPX-secret123'')])])
   \<and> extractor_main no_render
        (load_of (Loaded (JObj [(''web'', JObj [(''client_id'', JStr ''123.apps''),
                                   (''client_secret'', JStr ''GOCSPX-secret123'')])])))
        [''extract_credentials.py'', ''client_secret.json'']
      = \<lparr>stdout = ''clientId=123.apps'' @ [NL] @ ''clientSecret=GOCSPX-secret123'' @ [NL],
         exit_code = 0\<rparr>
   \<and> split_lines (stdout (extractor_main no_render
        (load_of (Loaded (JObj [(''web'', JObj [(''client_id'', JStr ''123.apps''),
                                   (''client_secret'', JStr ''GOCSPX-secret123'')])])))
        [''extract_credentials.py'', ''client_secret.json'']))
      = [''clientId=123.apps'' @ [NL], ''clientSecret=GOCSPX-secret123'' @ [NL]]"
  using extractor_prints_pair [of "''123.apps''" "''GOCSPX-secret123''" "''installed''"
      "load_of (Loaded (JObj [(''installed'', JObj [(''client_id'', JStr ''123.apps''),
                                   (''client_secret'', JStr ''GOCSPX-secret123'')])]))"
      "''client_secret.json''" no_render "''extract_credentials.py''"]
    extractor_prints_pair [of "''123.apps''" "''GOCSPX-secret123''" "''web''"
      "load_of (Loaded (JObj [(''web'', JObj [(''client_id'', JStr ''123.apps''),
                                   (''client_secret'', JStr ''GOCSPX-secret123'')])]))"
      "''client_secret.json''" no_render "''extract_credentials.py''"]
  by (simp add: load_of_def no_break_def NL_def CR_def)

text \<open>An empty client id is refused by the check of line 27.\<close>

theorem extractor_prints_pair_counterexample:
  "extractor_main no_render
     (load_of (Loaded (JObj [(''installed'', JObj [(''client_id'', JStr []),
                                                   (''client_secret'', JStr ''Y'')])])))
     [''extract_credentials.py'', ''client_secret.json'']
   = \<lparr>stdout = cross_mark @ '' Error: Missing client_id or client_secret in JSON file'' @ [NL],
      exit_code = 1\<rparr>"
  by (simp add: extractor_defs)

text \<open>
  Claim C6. On a document that has both an \<open>installed\<close> and a \<open>web\<close> section, the extractor
  runs as it does on the document that has the \<open>installed\<close> section alone, so \<open>web\<close> has
  no part in the run; and when \<open>installed\<close> holds a \<open>client_id\<close> and a \<open>client_secret\<close> that
  pass the check of line 27, the two lines printed carry these two values.
\<close>

theorem installed_before_web:
  assumes "load path = Loaded (JObj kvs)"
    and "map_of kvs ''installed'' = Some inst" and "map_of kvs ''web'' = Some w"
  shows "extractor_main render load [prog, path]
           = extractor_main render (load_of (Loaded (JObj [(''installed'', inst)]))) [prog, path]
         \<and> (inst = JObj sec \<and> truthy (dict_get sec ''client_id'')
               \<and> truthy (dict_get sec ''client_secret'') \<longrightarrow>
              extractor_main render load [prog, path]
                = \<lparr>stdout = ''clientId='' @ py_str render (dict_get sec ''client_id'') @ [NL]
                            @ ''clientSecret='' @ py_str render (dict_get sec ''client_secret'')
                            @ [NL],
                   exit_code = 0\<rparr>)"
proof (intro conjI impI)
  have found: "find_credentials (JObj kvs) = read_section inst"
    using assms(2) by (simp add: find_credentials_object chosen_section_def)
  moreover have "find_credentials (JObj [(''installed'', inst)]) = read_section inst"
    by (simp add: find_credentials_object chosen_section_def)
  ultimately have "extract_credentials load path
      = extract_credentials (load_of (Loaded (JObj [(''installed'', inst)]))) path"
    using assms(1) by (simp add: extract_credentials_def load_of_def)
  then show "extractor_main render load [prog, path]
      = extractor_main render (load_of (Loaded (JObj [(''installed'', inst)]))) [prog, path]"
    by (simp add: extractor_main_def)
  assume "inst = JObj sec \<and> truthy (dict_get sec ''client_id'')
            \<and> truthy (dict_get sec ''client_secret'')"
  then have "extract_credentials load path
      = ([], Some (dict_get sec ''client_id'', dict_get sec ''client_secret''))"
    using assms(1) found by (simp add: extract_credentials_def read_section_object)
  from extractor_main_some [OF this]
  show "extractor_main render load [prog, path]
      = \<lparr>stdout = ''clientId='' @ py_str render (dict_get sec ''client_id'') @ [NL]
                  @ ''clientSecret='' @ py_str render (dict_get sec ''client_secret'') @ [NL],
         exit_code = 0\<rparr>"
    by (simp add: py_print_def)
qed

text \<open>A document that lists \<open>web\<close> first and \<open>installed\<close> second.\<close>

theorem installed_before_web_witness:
  "load_of (Loaded (JObj [(''web'', JObj [(''client_id'', JStr ''W''),
                                          (''client_secret'', JStr ''WS'')]),
                          (''installed'', JObj [(''client_id'', JStr ''I''),
                                                (''client_secret'', JStr ''IS'')])]))
     ''client_secret.json''
   = Loaded (JObj [(''web'', JObj [(''client_id'', JStr ''W''),
                                   (''client_secret'', JStr ''WS'')]),
                   (''installed'', JObj [(''client_id'', JStr ''I''),
                                         (''client_secret'', JStr ''IS'')])])
   \<and> map_of [(''web'', JObj [(''client_id'', JStr ''W''), (''client_secret'', JStr ''WS'')]),
             (''installed'', JObj [(''client_id'', JStr ''I''), (''client_secret'', JStr ''IS'')])]
        ''installed''
      = Some (JObj [(''client_id'', JStr ''I''), (''client_secret'', JStr ''IS'')])
   \<and> map_of [(''web'', JObj [(''client_id'', JStr ''W''), (''client_secret'', JStr ''WS'')]),
             (''installed'', JObj [(''client_id'', JStr ''I''), (''client_secret'', JStr ''IS'')])]
        ''web''
      = Some (JObj [(''client_id'', JStr ''W''), (''client_secret'', JStr ''WS'')])
   \<and> truthy (dict_get [(''client_id'', JStr ''I''), (''client_secret'', JStr ''IS'')]
        ''client_id'')
   \<and> truthy (dict_get [(''client_id'', JStr ''I''), (''client_secret'', JStr ''IS'')]
        ''client_secret'')
   \<and> extractor_main no_render
        (load_of (Loaded (JObj [(''web'', JObj [(''client_id'', JStr ''W''),
                                                (''client_secret'', JStr ''WS'')]),
                                (''installed'', JObj [(''client_id'', JStr ''I''),
                                                      (''client_secret'', JStr ''IS'')])])))
        [''extract_credentials.py'', ''client_secret.json'']
      = \<lparr>stdout = ''clientId=I'' @ [NL] @ ''clientSecret=IS'' @ [NL], exit_code = 0\<rparr>"
  using installed_before_web [of
      "load_of (Loaded (JObj [(''web'', JObj [(''client_id'', JStr ''W''),
                                              (''client_secret'', JStr ''WS'')]),
                              (''installed'', JObj [(''client_id'', JStr ''I''),
                                                    (''client_secret'', JStr ''IS'')])]))"
      "''client_secret.json''"
      "[(''web'', JObj [(''client_id'', JStr ''W''), (''client_secret'', JStr ''WS'')]),
        (''installed'', JObj [(''client_id'', JStr ''I''), (''client_secret'', JStr ''IS'')])]"
      "JObj [(''client_id'', JStr ''I''), (''client_secret'', JStr ''IS'')]"
      "JObj [(''client_id'', JStr ''W''), (''client_secret'', JStr ''WS'')]"
      no_render "''extract_credentials.py''"
      "[(''client_id'', JStr ''I''), (''client_secret'', JStr ''IS'')]"]
  by (simp add: extractor_defs)


section \<open>The extractor: failing runs\<close>

text \<open>
  Claim C7, as amended. When the file does not exist, when its content is not JSON, when
  the document has neither an \<open>installed\<close> nor a \<open>web\<close> section, or when \<open>client_id\<close> or
  \<open>client_secret\<close> is missing or empty in the section read, the extractor exits with status
  1 and standard output receives exactly one message, which begins with the error marker
  and names the failure; the two credential lines are not printed.
\<close>

theorem extractor_failure_diagnostic:
  "(load path = FileNotFound \<longrightarrow>
      extractor_main render load [prog, path]
        = \<lparr>stdout = cross_mark @ '' Error: File '' @ [SQ] @ path @ [SQ] @ '' not found'' @ [NL],
           exit_code = 1\<rparr>)
   \<and> (load path = JSONDecodeError \<longrightarrow>
      extractor_main render load [prog, path]
        = \<lparr>stdout = cross_mark @ '' Error: Invalid JSON file'' @ [NL], exit_code = 1\<rparr>)
   \<and> (load path = Loaded (JObj kvs) \<and> chosen_section kvs = None \<longrightarrow>
      extractor_main render load [prog, path]
        = \<lparr>stdout = cross_mark @ '' Error: Could not find '' @ [SQ] @ ''installed'' @ [SQ]
                    @ '' or '' @ [SQ] @ ''web'' @ [SQ] @ '' section in JSON file'' @ [NL],
           exit_code = 1\<rparr>)
   \<and> (load path = Loaded (JObj kvs) \<and> chosen_section kvs = Some (JObj sec)
        \<and> (\<not> truthy (dict_get sec ''client_id'') \<or> \<not> truthy (dict_get sec ''client_secret''))
      \<longrightarrow>
      extractor_main render load [prog, path]
        = \<lparr>stdout = cross_mark @ '' Error: Missing client_id or client_secret in JSON file''
                    @ [NL],
           exit_code = 1\<rparr>)"
proof (intro conjI impI)
  assume "load path = FileNotFound"
  then have "extract_credentials load path
      = (py_print (cross_mark @ '' Error: File '' @ [SQ] @ path @ [SQ] @ '' not found''), None)"
    by (simp add: extract_credentials_def)
  from extractor_main_none [OF this]
  show "extractor_main render load [prog, path]
        = \<lparr>stdout = cross_mark @ '' Error: File '' @ [SQ] @ path @ [SQ] @ '' not found'' @ [NL],
           exit_code = 1\<rparr>"
    by (simp add: py_print_def)
next
  assume "load path = JSONDecodeError"
  then have "extract_credentials load path
      = (py_print (cross_mark @ '' Error: Invalid JSON file''), None)"
    by (simp add: extract_credentials_def)
  from extractor_main_none [OF this]
  show "extractor_main render load [prog, path]
        = \<lparr>stdout = cross_mark @ '' Error: Invalid JSON file'' @ [NL], exit_code = 1\<rparr>"
    by (simp add: py_print_def)
next
  assume "load path = Loaded (JObj kvs) \<and> chosen_section kvs = None"
  then have "extract_credentials load path
      = (py_print (cross_mark @ '' Error: Could not find '' @ [SQ] @ ''installed'' @ [SQ]
                    @ '' or '' @ [SQ] @ ''web'' @ [SQ] @ '' section in JSON file''), None)"
    by (simp add: extract_credentials_def find_credentials_object)
  from extractor_main_none [OF this]
  show "extractor_main render load [prog, path]
        = \<lparr>stdout = cross_mark @ '' Error: Could not find '' @ [SQ] @ ''installed'' @ [SQ]
                    @ '' or '' @ [SQ] @ ''web'' @ [SQ] @ '' section in JSON file'' @ [NL],
           exit_code = 1\<rparr>"
    by (simp add: py_print_def)
next
  assume "load path = Loaded (JObj kvs) \<and> chosen_section kvs = Some (JObj sec)
        \<and> (\<not> truthy (dict_get sec ''client_id'') \<or> \<not> truthy (dict_get sec ''client_secret''))"
  then have "extract_credentials load path
      = (py_print (cross_mark @ '' Error: Missing client_id or client_secret in JSON file''),
         None)"
    by (auto simp: extract_credentials_def find_credentials_object read_section_object)
  from extractor_main_none [OF this]
  show "extractor_main render load [prog, path]
        = \<lparr>stdout = cross_mark @ '' Error: Missing client_id or client_secret in JSON file''
                    @ [NL],
           exit_code = 1\<rparr>"
    by (simp add: py_print_def)
qed

text \<open>One run for each of the four cases.\<close>

theorem extractor_failure_diagnostic_witness:
  "load_of FileNotFound ''gone.json'' = FileNotFound
   \<and> extractor_main no_render (load_of FileNotFound) [''extract_credentials.py'', ''gone.json'']
      = \<lparr>stdout = cross_mark @ '' Error: File '' @ [SQ] @ ''gone.json'' @ [SQ] @ '' not found''
                    @ [NL],
         exit_code = 1\<rparr>
   \<and> load_of JSONDecodeError ''broken.json'' = JSONDecodeError
   \<and> extractor_main no_render (load_of JSONDecodeError)
        [''extract_credentials.py'', ''broken.json'']
      = \<lparr>stdout = cross_mark @ '' Error: Invalid JSON file'' @ [NL], exit_code = 1\<rparr>
   \<and> load_of (Loaded (JObj [(''other'', JInt 1)])) ''other.json''
        = Loaded (JObj [(''other'', JInt 1)])
   \<and> chosen_section [(''other'', JInt 1)] = None
   \<and> extractor_main no_render (load_of (Loaded (JObj [(''other'', JInt 1)])))
        [''extract_credentials.py'', ''other.json'']
      = \<lparr>stdout = cross_mark @ '' Error: Could not find '' @ [SQ] @ ''installed'' @ [SQ]
                    @ '' or '' @ [SQ] @ ''web'' @ [SQ] @ '' section in JSON file'' @ [NL],
         exit_code = 1\<rparr>
   \<and> load_of (Loaded (JObj [(''web'', JObj [(''client_id'', JStr ''X'')])])) ''half.json''
        = Loaded (JObj [(''web'', JObj [(''client_id'', JStr ''X'')])])
   \<and> chosen_section [(''web'', JObj [(''client_id'', JStr ''X'')])]
        = Some (JObj [(''client_id'', JStr ''X'')])
   \<and> \<not> truthy (dict_get [(''client_id'', JStr ''X'')] ''client_secret'')
   \<and> extractor_main no_render
        (load_of (Loaded (JObj [(''web'', JObj [(''client_id'', JStr ''X'')])])))
        [''extract_credentials.py'', ''half.json'']
      = \<lparr>stdout = cross_mark @ '' Error: Missing client_id or client_secret in JSON file''
                    @ [NL],
         exit_code = 1\<rparr>"
  using extractor_failure_diagnostic [of "load_of FileNotFound" "''gone.json''" no_render
      "''extract_credentials.py''" "[]" "[]"]
    extractor_failure_diagnostic [of "load_of JSONDecodeError" "''broken.json''" no_render
      "''extract_credentials.py''" "[]" "[]"]
    extractor_failure_diagnostic [of "load_of (Loaded (JObj [(''other'', JInt 1)]))"
      "''other.json''" no_render "''extract_credentials.py''" "[(''other'', JInt 1)]" "[]"]
    extractor_failure_diagnostic [of
      "load_of (Loaded (JObj [(''web'', JObj [(''client_id'', JStr ''X'')])]))"
      "''half.json''" no_render "''extract_credentials.py''"
      "[(''web'', JObj [(''client_id'', JStr ''X'')])]" "[(''client_id'', JStr ''X'')]"]
  by (simp add: load_of_def chosen_section_def dict_get_def)

text \<open>The run on a missing file writes its message to standard output.\<close>

theorem extractor_failure_diagnostic_counterexample:
  "stdout (extractor_main no_render (load_of FileNotFound)
     [''extract_credentials.py'', ''missing.json''])
   = cross_mark @ '' Error: File '' @ [SQ] @ ''missing.json'' @ [SQ] @ '' not found'' @ [NL]
   \<and> stdout (extractor_main no_render (load_of FileNotFound)
       [''extract_credentials.py'', ''missing.json'']) \<noteq> []
   \<and> exit_code (extractor_main no_render (load_of FileNotFound)
       [''extract_credentials.py'', ''missing.json'']) = 1"
  by (simp add: extractor_defs)


text \<open>
  Claim C10, as amended. When the file loads as a document that is not a \<open>dict\<close>, or as a
  \<open>dict\<close> in which the section read (\<open>installed\<close> if present, otherwise \<open>web\<close>) is not a
  \<open>dict\<close>, the extractor exits with status 1 and no line of its output begins with
  \<open>clientId=\<close> or \<open>clientSecret=\<close>.
\<close>

theorem shape_error_exits_1:
  assumes "load path = Loaded data" and "shape_error data"
  shows "exit_code (extractor_main render load [prog, path]) = 1
         \<and> lines_starting ''clientId='' (stdout (extractor_main render load [prog, path])) = []
         \<and> lines_starting ''clientSecret='' (stdout (extractor_main render load [prog, path])) = []"
proof -
  from shape_error_message [OF assms(2)] obtain m where m: "NL \<notin> set m"
    "extract_credentials load path = (py_print (cross_mark @ '' Error: '' @ m), None)"
    using assms(1) by (auto simp: extract_credentials_def)
  show ?thesis
    unfolding extractor_main_none [OF m(2)]
    using error_line_no_credentials [OF m(1)] by simp
qed

text \<open>A section that is a string, and a document that is a list.\<close>

theorem shape_error_exits_1_witness:
  "load_of (Loaded (JObj [(''installed'', JStr ''oops'')])) ''client_secret.json''
     = Loaded (JObj [(''installed'', JStr ''oops'')])
   \<and> shape_error (JObj [(''installed'', JStr ''oops'')])
   \<and> load_of (Loaded (JArr [JStr ''installed''])) ''client_secret.json''
     = Loaded (JArr [JStr ''installed''])
   \<and> shape_error (JArr [JStr ''installed''])
   \<and> extractor_main no_render (load_of (Loaded (JObj [(''installed'', JStr ''oops'')])))
        [''extract_credentials.py'', ''client_secret.json'']
      = \<lparr>stdout = cross_mark @ '' Error: '' @ [SQ] @ ''str'' @ [SQ]
                  @ '' object has no attribute '' @ [SQ] @ ''get'' @ [SQ] @ [NL],
         exit_code = 1\<rparr>
   \<and> exit_code (extractor_main no_render (load_of (Loaded (JArr [JStr ''installed''])))
        [''extract_credentials.py'', ''client_secret.json'']) = 1"
  using shape_error_exits_1 [of "load_of (Loaded (JObj [(''installed'', JStr ''oops'')]))"
      "''client_secret.json''" "JObj [(''installed'', JStr ''oops'')]" no_render
      "''extract_credentials.py''"]
    shape_error_exits_1 [of "load_of (Loaded (JArr [JStr ''installed'']))"
      "''client_secret.json''" "JArr [JStr ''installed'']" no_render
      "''extract_credentials.py''"]
  by (simp add: extractor_defs)

text \<open>
  A \<open>web\<close> entry that is not a \<open>dict\<close> does no harm when there is a good \<open>installed\<close>
  section: the run succeeds.
\<close>

theorem shape_error_exits_1_counterexample:
  "extractor_main no_render
     (load_of (Loaded (JObj [(''installed'', JObj [(''client_id'', JStr ''X''),
                                                   (''client_secret'', JStr ''Y'')]),
                             (''web'', JInt 5)])))
     [''extract_credentials.py'', ''client_secret.json'']
   = \<lparr>stdout = ''clientId=X'' @ [NL] @ ''clientSecret=Y'' @ [NL], exit_code = 0\<rparr>"
  by (simp add: extractor_defs)

end
